theory Spec2Isabelle
  imports Complex_Main
begin

section \<open>Python strings\<close>

text \<open>
  A Python \<open>str\<close> is modelled as a \<open>string\<close>, each \<open>char\<close> standing for one code
  point below 256.  On these code points \<open>str.lower\<close>, \<open>str.isspace\<close> (which is also
  the class \<open>\s\<close> of the \<open>re\<close> module), \<open>\d\<close> and \<open>\w\<close> are the functions below.
\<close>

definition code_point :: "char \<Rightarrow> int" where
  "code_point c = of_char c"

definition lower_char :: "char \<Rightarrow> char" where
  "lower_char c =
     (let n = code_point c
      in if (65 \<le> n \<and> n \<le> 90) \<or> (192 \<le> n \<and> n \<le> 222 \<and> n \<noteq> 215)
         then char_of (n + 32) else c)"

definition lower :: "string \<Rightarrow> string" where
  "lower s = map lower_char s"

definition is_space :: "char \<Rightarrow> bool" where
  "is_space c =
     (let n = code_point c
      in (9 \<le> n \<and> n \<le> 13) \<or> (28 \<le> n \<and> n \<le> 32) \<or> n = 133 \<or> n = 160)"

definition is_digit :: "char \<Rightarrow> bool" where
  "is_digit c = (let n = code_point c in 48 \<le> n \<and> n \<le> 57)"

definition is_word_char :: "char \<Rightarrow> bool" where
  "is_word_char c =
     (let n = code_point c
      in (48 \<le> n \<and> n \<le> 57) \<or> (65 \<le> n \<and> n \<le> 90) \<or> n = 95 \<or> (97 \<le> n \<and> n \<le> 122)
         \<or> n = 170 \<or> n = 178 \<or> n = 179 \<or> n = 181 \<or> n = 185 \<or> n = 186
         \<or> (188 \<le> n \<and> n \<le> 190) \<or> (192 \<le> n \<and> n \<le> 214)
         \<or> (216 \<le> n \<and> n \<le> 246) \<or> 248 \<le> n)"

text \<open>\<open>s.startswith(p)\<close>.\<close>

definition startswith :: "string \<Rightarrow> string \<Rightarrow> bool" where
  "startswith s p = (take (length p) s = p)"

text \<open>\<open>sub in text\<close>: \<open>sub\<close> occurs in \<open>text\<close> as a contiguous run.\<close>

fun contains :: "string \<Rightarrow> string \<Rightarrow> bool" where
  "contains [] sub = (sub = [])"
| "contains (c # cs) sub = (startswith (c # cs) sub \<or> contains cs sub)"

text \<open>\<open>s.split()\<close>: the maximal runs of non-whitespace characters, in order.\<close>

fun split_acc :: "string \<Rightarrow> string \<Rightarrow> string list" where
  "split_acc w [] = (if w = [] then [] else [rev w])"
| "split_acc w (c # cs) =
     (if is_space c then (if w = [] then split_acc [] cs else rev w # split_acc [] cs)
      else split_acc (c # w) cs)"

definition split :: "string \<Rightarrow> string list" where
  "split s = split_acc [] s"

text \<open>\<open>s.strip()\<close>.\<close>

definition strip :: "string \<Rightarrow> string" where
  "strip s = rev (dropWhile is_space (rev (dropWhile is_space s)))"


section \<open>JobCategorizer\<close>

subsection \<open>Keyword matching\<close>

text \<open>
  The test \<open>_find_keyword_matches\<close> applies to one keyword: the \<open>if\<close> on the
  lower-cased keyword, then the \<open>elif\<close> on the words of a keyword of more than one word.
\<close>

definition keyword_matches_text :: "string \<Rightarrow> string \<Rightarrow> bool" where
  "keyword_matches_text text keyword =
     (if contains text (lower keyword) then True
      else if length (split keyword) > 1
        then list_all (\<lambda>word. contains text (lower word)) (split keyword)
      else False)"

text \<open>The loop of \<open>_find_keyword_matches\<close>, appending to \<open>matches\<close>.\<close>

fun find_keyword_matches_loop :: "string \<Rightarrow> string list \<Rightarrow> string list \<Rightarrow> string list" where
  "find_keyword_matches_loop text matches [] = matches"
| "find_keyword_matches_loop text matches (keyword # keywords) =
     find_keyword_matches_loop text
       (if keyword_matches_text text keyword then matches @ [keyword] else matches) keywords"

definition find_keyword_matches :: "string \<Rightarrow> string list \<Rightarrow> string list" where
  "find_keyword_matches text keywords = find_keyword_matches_loop text [] keywords"


subsection \<open>Configuration and result\<close>

datatype error =
    AttributeError string
  | TypeError string
  | KeyError string
  | ValueError string
  | ValidationError string
  | ModuleNotFoundError string
  | RuntimeError string

text \<open>\<open>str(e)\<close>: the message an exception carries.\<close>

fun str_of_error :: "error \<Rightarrow> string" where
  "str_of_error (AttributeError m) = m"
| "str_of_error (TypeError m) = m"
| "str_of_error (KeyError m) = m"
| "str_of_error (ValueError m) = m"
| "str_of_error (ValidationError m) = m"
| "str_of_error (ModuleNotFoundError m) = m"
| "str_of_error (RuntimeError m) = m"

datatype JobCategory =
    TECHNOLOGY | DATA | PRODUCT | DESIGN | SALES | MARKETING | OPERATIONS
  | FINANCE | HR | LEGAL | CUSTOMER_SUCCESS | CONSULTING | OTHER

text \<open>\<open>JobCategory(value)\<close>: the member with that value; \<open>None\<close> is the \<open>ValueError\<close>.\<close>

definition JobCategory_of_value :: "string \<Rightarrow> JobCategory option" where
  "JobCategory_of_value v = map_of
     [(''technology'', TECHNOLOGY), (''data'', DATA), (''product'', PRODUCT),
      (''design'', DESIGN), (''sales'', SALES), (''marketing'', MARKETING),
      (''operations'', OPERATIONS), (''finance'', FINANCE), (''hr'', HR),
      (''legal'', LEGAL), (''customer_success'', CUSTOMER_SUCCESS),
      (''consulting'', CONSULTING), (''other'', OTHER)] v"

text \<open>
  One entry of \<open>job_categories\<close>, with its lists \<open>keywords\<close> and \<open>departments\<close>; a key
  that is absent reads as the empty list, as
  \<open>category_info.get("keywords", [])\<close> does.
\<close>

record category_info =
  keyword_list :: "string list"
  department_list :: "string list"

text \<open>
  \<open>categorization_rules\<close>; \<open>None\<close> is an absent key, read with the default of the
  \<open>.get\<close> call.  The numbers of the configuration are taken as exact rationals.
\<close>

record categorization_rules =
  title_weight :: "rat option"
  department_weight :: "rat option"
  description_weight :: "rat option"
  exact_match_bonus :: "rat option"
  min_confidence_threshold :: "rat option"

definition get_default :: "'a option \<Rightarrow> 'a \<Rightarrow> 'a" where
  "get_default v d = (case v of None \<Rightarrow> d | Some x \<Rightarrow> x)"

text \<open>
  The categorizer: \<open>categories\<close> is the dictionary \<open>job_categories\<close> as its items in
  insertion order.
\<close>

record JobCategorizer =
  categories :: "(string \<times> category_info) list"
  rules :: categorization_rules

text \<open>
  The reasoning text: the fixed sentence, or one of the two formatted sentences with the
  numbers they print.
\<close>

datatype reasoning =
    Literal string
  | ConfidenceBelowThreshold rat rat
  | BestMatchWithScore rat

record JobCategorizationResult =
  category :: JobCategory
  confidence :: rat
  keyword_matches :: "(string \<times> nat) list"
  department_match :: bool
  reasoning :: reasoning

subsection \<open>categorize_job\<close>

text \<open>The body of the loop over the categories: the score and the number of matches.\<close>

definition score_category ::
  "categorization_rules \<Rightarrow> string \<Rightarrow> string \<Rightarrow> string \<Rightarrow> category_info \<Rightarrow> rat \<times> nat" where
  "score_category r title_lower description_lower department_lower info =
     (let title_matches = find_keyword_matches title_lower (keyword_list info);
          s1 = (if title_matches \<noteq> []
                then of_nat (length title_matches) * get_default (title_weight r) (6 / 10)
                else 0);
          desc_sample = take 500 description_lower;
          desc_matches = find_keyword_matches desc_sample (keyword_list info);
          s2 = (if desc_matches \<noteq> []
                then s1 + of_nat (length desc_matches)
                            * get_default (description_weight r) (1 / 10) * (5 / 10)
                else s1);
          dept_matches = find_keyword_matches department_lower (department_list info);
          s3 = (if dept_matches \<noteq> []
                then s2 + of_nat (length dept_matches) * get_default (department_weight r) (3 / 10)
                else s2);
          matches = title_matches @ desc_matches @ dept_matches;
          bonus = get_default (exact_match_bonus r) 2;
          s4 = s3 + sum_list (map (\<lambda>m. if length (split m) = 1 then bonus else 0) matches)
      in (s4, length matches))"

text \<open>The loop, filling \<open>scores\<close> and \<open>keyword_matches\<close>.\<close>

fun score_loop ::
  "categorization_rules \<Rightarrow> string \<Rightarrow> string \<Rightarrow> string \<Rightarrow> (string \<times> rat) list \<Rightarrow>
   (string \<times> nat) list \<Rightarrow> (string \<times> category_info) list \<Rightarrow>
   (string \<times> rat) list \<times> (string \<times> nat) list" where
  "score_loop r t d p scores kms [] = (scores, kms)"
| "score_loop r t d p scores kms ((category_id, info) # rest) =
     (let (score, n) = score_category r t d p info
      in if score > 0
         then score_loop r t d p (scores @ [(category_id, score)]) (kms @ [(category_id, n)]) rest
         else score_loop r t d p scores kms rest)"

text \<open>\<open>max(items, key=lambda x: x[1])\<close>: the first item of the greatest score.\<close>

fun max_item :: "(string \<times> rat) \<Rightarrow> (string \<times> rat) list \<Rightarrow> (string \<times> rat)" where
  "max_item best [] = best"
| "max_item best (x # xs) = max_item (if snd x > snd best then x else best) xs"

definition categorize_job ::
  "JobCategorizer \<Rightarrow> string \<Rightarrow> string \<Rightarrow> string option \<Rightarrow> error + JobCategorizationResult" where
  "categorize_job cz title description department =
     (let title_weight' = get_default (title_weight (rules cz)) (6 / 10);
          title_lower = (if title \<noteq> [] then lower title else []);
          description_lower = (if description \<noteq> [] then lower description else []);
          department_lower =
            (case department of None \<Rightarrow> [] | Some d \<Rightarrow> if d \<noteq> [] then lower d else []);
          (scores, kms) =
            score_loop (rules cz) title_lower description_lower department_lower [] []
              (categories cz)
      in case scores of
           [] \<Rightarrow> Inr \<lparr>category = OTHER, confidence = 0, keyword_matches = kms,
                     department_match = False,
                     reasoning = Literal ''No category keywords found''\<rparr>
         | s # ss \<Rightarrow>
             (let best = max_item s ss;
                  best_category_id = fst best;
                  best_score = snd best
              in case map_of (categories cz) best_category_id of
                   None \<Rightarrow> Inl (KeyError best_category_id)
                 | Some info \<Rightarrow>
                     (let max_possible_score = of_nat (length (keyword_list info)) * title_weight';
                          confidence' = (if max_possible_score > 0
                                         then min (best_score / max_possible_score) 1 else 0);
                          min_confidence = get_default (min_confidence_threshold (rules cz)) (3 / 10)
                      in if confidence' < min_confidence
                         then Inr \<lparr>category = OTHER, confidence = confidence',
                                   keyword_matches = kms, department_match = False,
                                   reasoning = ConfidenceBelowThreshold confidence' min_confidence\<rparr>
                         else
                           (let department_match' =
                                  (if department_lower \<noteq> []
                                   then list_ex (\<lambda>dept. contains department_lower (lower dept))
                                          (department_list info)
                                   else False);
                                category_enum =
                                  (case JobCategory_of_value best_category_id of
                                     Some c \<Rightarrow> c | None \<Rightarrow> OTHER)
                            in Inr \<lparr>category = category_enum, confidence = confidence',
                                     keyword_matches = kms, department_match = department_match',
                                     reasoning = BestMatchWithScore best_score\<rparr>))))"



section \<open>Regular expressions\<close>

text \<open>
  The patterns of \<open>base_scraper.py\<close> are sequences of two kinds of item: a character
  class under a greedy quantifier \<open>{lo,hi}\<close> (a literal character is the class of that
  character taken once), and the word boundary \<open>\b\<close>.  \<open>rmatch\<close> matches a pattern at
  the head of a string and gives the length of the match, trying the repetition counts
  of each quantifier from the longest down, as the backtracking matcher of \<open>re\<close> does.
  \<open>prev\<close> is the character before the position (\<open>None\<close> at the start of the string).
\<close>

datatype atom = Rep "char \<Rightarrow> bool" nat "nat option" | Bnd

definition one :: "(char \<Rightarrow> bool) \<Rightarrow> atom" where
  "one P = Rep P 1 (Some 1)"

definition lit :: "char \<Rightarrow> atom" where
  "lit c = one (\<lambda>x. x = c)"

definition lits :: "string \<Rightarrow> atom list" where
  "lits s = map lit s"

text \<open>\<open>P*\<close>, \<open>P+\<close>, \<open>P?\<close> and \<open>P{lo,hi}\<close>.\<close>

definition star :: "(char \<Rightarrow> bool) \<Rightarrow> atom" where
  "star P = Rep P 0 None"

definition plus1 :: "(char \<Rightarrow> bool) \<Rightarrow> atom" where
  "plus1 P = Rep P 1 None"

definition opt :: "(char \<Rightarrow> bool) \<Rightarrow> atom" where
  "opt P = Rep P 0 (Some 1)"

definition times :: "(char \<Rightarrow> bool) \<Rightarrow> nat \<Rightarrow> nat \<Rightarrow> atom" where
  "times P lo hi = Rep P lo (Some hi)"

fun first_match :: "(nat \<Rightarrow> nat option) \<Rightarrow> nat list \<Rightarrow> nat option" where
  "first_match f [] = None"
| "first_match f (n # ns) = (case f n of Some r \<Rightarrow> Some r | None \<Rightarrow> first_match f ns)"

definition word_at :: "char option \<Rightarrow> bool" where
  "word_at c = (case c of None \<Rightarrow> False | Some x \<Rightarrow> is_word_char x)"

definition head_char :: "string \<Rightarrow> char option" where
  "head_char s = (case s of [] \<Rightarrow> None | c # cs \<Rightarrow> Some c)"

definition prev_after :: "char option \<Rightarrow> string \<Rightarrow> nat \<Rightarrow> char option" where
  "prev_after prev s n = (if n = 0 then prev else head_char (drop (n - 1) s))"

fun rmatch :: "atom list \<Rightarrow> char option \<Rightarrow> string \<Rightarrow> nat option" where
  "rmatch [] prev s = Some 0"
| "rmatch (Bnd # as) prev s =
     (if word_at prev \<noteq> word_at (head_char s) then rmatch as prev s else None)"
| "rmatch (Rep P lo hi # as) prev s =
     (let run = length (takeWhile P s);
          mx = (case hi of None \<Rightarrow> run | Some h \<Rightarrow> min h run)
      in first_match
           (\<lambda>n. case rmatch as (prev_after prev s n) (drop n s) of
                  None \<Rightarrow> None | Some k \<Rightarrow> Some (n + k))
           (rev [lo..<Suc mx]))"

text \<open>
  \<open>re.search\<close>: the leftmost position at which the pattern matches, with the length of
  the match there; \<open>group\<close> is the matched text.
\<close>

fun search_from :: "atom list \<Rightarrow> char option \<Rightarrow> string \<Rightarrow> nat \<Rightarrow> (nat \<times> nat) option" where
  "search_from pat prev [] i = (case rmatch pat prev [] of None \<Rightarrow> None | Some n \<Rightarrow> Some (i, n))"
| "search_from pat prev (c # cs) i =
     (case rmatch pat prev (c # cs) of
        Some n \<Rightarrow> Some (i, n)
      | None \<Rightarrow> search_from pat (Some c) cs (Suc i))"

definition re_search :: "atom list \<Rightarrow> string \<Rightarrow> (nat \<times> nat) option" where
  "re_search pat s = search_from pat None s 0"

text \<open>\<open>if re.search(pat, s)\<close>: the pattern matches somewhere in the string.\<close>

definition found :: "atom list \<Rightarrow> string \<Rightarrow> bool" where
  "found pat s = (case re_search pat s of None \<Rightarrow> False | Some m \<Rightarrow> True)"

definition group :: "string \<Rightarrow> nat \<times> nat \<Rightarrow> string" where
  "group s m = take (snd m) (drop (fst m) s)"

text \<open>
  \<open>re.sub(pat, repl, s)\<close>: every match, left to right and without overlap, is replaced
  by \<open>repl\<close>; after an empty match the next character is copied.
\<close>

function re_sub_from :: "atom list \<Rightarrow> string \<Rightarrow> char option \<Rightarrow> string \<Rightarrow> string" where
  "re_sub_from pat repl prev [] = (case rmatch pat prev [] of None \<Rightarrow> [] | Some n \<Rightarrow> repl)"
| "re_sub_from pat repl prev (c # cs) =
     (case rmatch pat prev (c # cs) of
        None \<Rightarrow> c # re_sub_from pat repl (Some c) cs
      | Some 0 \<Rightarrow> repl @ c # re_sub_from pat repl (Some c) cs
      | Some (Suc n) \<Rightarrow>
          repl @ re_sub_from pat repl (Some (last (take (Suc n) (c # cs)))) (drop n cs))"
  by pat_completeness auto
termination
  by (relation "measure (\<lambda>(pat, repl, prev, s). length s)") auto

definition re_sub :: "atom list \<Rightarrow> string \<Rightarrow> string \<Rightarrow> string" where
  "re_sub pat repl s = re_sub_from pat repl None s"


section \<open>The data model (data/models.py)\<close>

datatype CompanyName = META | AMAZON | APPLE | NETFLIX | GOOGLE

datatype JobType = FULL_TIME | PART_TIME | CONTRACT | INTERNSHIP | TEMPORARY | FREELANCE

datatype ExperienceLevel = ENTRY | MID | SENIOR | LEAD | DIRECTOR | EXECUTIVE

datatype WorkplaceType = ONSITE | REMOTE | HYBRID | UNKNOWN

text \<open>
  \<open>JobType.NAME\<close>, \<open>ExperienceLevel.NAME\<close> and \<open>WorkplaceType.NAME\<close>: the member of
  that name, looked up when the expression is evaluated; a name the enumeration does not
  define raises \<open>AttributeError\<close>.
\<close>

definition JobType_members :: "(string \<times> JobType) list" where
  "JobType_members =
     [(''FULL_TIME'', FULL_TIME), (''PART_TIME'', PART_TIME), (''CONTRACT'', CONTRACT),
      (''INTERNSHIP'', INTERNSHIP), (''TEMPORARY'', TEMPORARY), (''FREELANCE'', FREELANCE)]"

definition ExperienceLevel_members :: "(string \<times> ExperienceLevel) list" where
  "ExperienceLevel_members =
     [(''ENTRY'', ENTRY), (''MID'', MID), (''SENIOR'', SENIOR), (''LEAD'', LEAD),
      (''DIRECTOR'', DIRECTOR), (''EXECUTIVE'', EXECUTIVE)]"

definition WorkplaceType_members :: "(string \<times> WorkplaceType) list" where
  "WorkplaceType_members =
     [(''ONSITE'', ONSITE), (''REMOTE'', REMOTE), (''HYBRID'', HYBRID), (''UNKNOWN'', UNKNOWN)]"

definition member_attr :: "(string \<times> 'a) list \<Rightarrow> string \<Rightarrow> error + 'a" where
  "member_attr members name =
     (case map_of members name of None \<Rightarrow> Inl (AttributeError name) | Some m \<Rightarrow> Inr m)"

definition JobType_attr :: "string \<Rightarrow> error + JobType" where
  "JobType_attr name = member_attr JobType_members name"

definition ExperienceLevel_attr :: "string \<Rightarrow> error + ExperienceLevel" where
  "ExperienceLevel_attr name = member_attr ExperienceLevel_members name"

definition WorkplaceType_attr :: "string \<Rightarrow> error + WorkplaceType" where
  "WorkplaceType_attr name = member_attr WorkplaceType_members name"

text \<open>A calendar date.\<close>

record pydate =
  year :: int
  month :: int
  day :: int


section \<open>Normalization helpers of BaseScraper\<close>

text \<open>
  A value of a raw listing (\<open>Dict[str, Any]\<close>): \<open>None\<close>, a string, or a value that is
  no string (an integer stands for these).
\<close>

datatype pyval = PyNone | PyStr string | PyInt int

text \<open>\<open>not v\<close>.\<close>

fun falsy :: "pyval \<Rightarrow> bool" where
  "falsy PyNone = True"
| "falsy (PyStr s) = (s = [])"
| "falsy (PyInt n) = (n = 0)"

subsection \<open>_clean_text\<close>

definition whitespace_run :: "atom list" where
  "whitespace_run = [plus1 is_space]"

definition html_tag :: "atom list" where
  "html_tag = [lit CHR ''<'', plus1 (\<lambda>c. c \<noteq> CHR ''>''), lit CHR ''>'']"

definition is_control :: "char \<Rightarrow> bool" where
  "is_control c = (let n = code_point c in n \<le> 31 \<or> (127 \<le> n \<and> n \<le> 159))"

definition control_char :: "atom list" where
  "control_char = [one is_control]"

text \<open>The three substitutions of \<open>_clean_text\<close>, in order.\<close>

definition cleaned :: "string \<Rightarrow> string" where
  "cleaned text =
     (let text1 = re_sub whitespace_run '' '' (strip text);
          text2 = re_sub html_tag [] text1;
          text3 = re_sub control_char [] text2
      in text3)"

definition clean_text :: "pyval \<Rightarrow> error + string option" where
  "clean_text v =
     (case v of
        PyNone \<Rightarrow> Inr None
      | PyInt n \<Rightarrow> if n = 0 then Inr None else Inl (AttributeError ''strip'')
      | PyStr text \<Rightarrow>
          if text = [] then Inr None
          else (let text' = cleaned text in Inr (if text' \<noteq> [] then Some text' else None)))"

text \<open>\<open>not x\<close> for a cleaned field, as the required-field check applies it.\<close>

definition missing :: "string option \<Rightarrow> bool" where
  "missing x = (case x of None \<Rightarrow> True | Some s \<Rightarrow> s = [])"

subsection \<open>_parse_date\<close>

definition date_patterns :: "atom list list" where
  "date_patterns =
     [ [times is_digit 4 4, lit CHR ''-'', times is_digit 2 2, lit CHR ''-'', times is_digit 2 2],
       [times is_digit 2 2, lit CHR ''/'', times is_digit 2 2, lit CHR ''/'', times is_digit 4 4],
       [times is_digit 2 2, lit CHR ''-'', times is_digit 2 2, lit CHR ''-'', times is_digit 4 4],
       [times is_word_char 3 9, plus1 is_space, times is_digit 1 2, opt (\<lambda>c. c = CHR '',''),
        plus1 is_space, times is_digit 4 4],
       [times is_digit 1 2, plus1 is_space, times is_word_char 3 9, plus1 is_space,
        times is_digit 4 4] ]"

definition days_ago :: "atom list" where
  "days_ago = [plus1 is_digit, star is_space] @ lits ''day'' @ [opt (\<lambda>c. c = CHR ''s''), star is_space]
              @ lits ''ago''"

definition weeks_ago :: "atom list" where
  "weeks_ago = [plus1 is_digit, star is_space] @ lits ''week'' @ [opt (\<lambda>c. c = CHR ''s''), star is_space]
               @ lits ''ago''"

text \<open>
  \<open>relative_patterns\<close>: each pattern with its \<open>date_func\<close>; the four functions ignore
  their argument and give \<open>datetime.now().date()\<close>, here \<open>now\<close>.
\<close>

definition relative_patterns :: "pydate \<Rightarrow> (atom list \<times> (unit option \<Rightarrow> pydate)) list" where
  "relative_patterns now =
     [(days_ago, \<lambda>x. now), (weeks_ago, \<lambda>x. now),
      (lits ''yesterday'', \<lambda>x. now), (lits ''today'', \<lambda>x. now)]"

text \<open>
  The first loop: \<open>parse\<close> is \<open>dateutil.parser.parse\<close> followed by \<open>.date()\<close>, with
  \<open>None\<close> for a string it rejects (the \<open>except: continue\<close>).
\<close>

fun parse_absolute :: "(string \<Rightarrow> pydate option) \<Rightarrow> atom list list \<Rightarrow> string \<Rightarrow> pydate option" where
  "parse_absolute parse [] date_str = None"
| "parse_absolute parse (pattern # patterns) date_str =
     (case re_search pattern date_str of
        None \<Rightarrow> parse_absolute parse patterns date_str
      | Some m \<Rightarrow>
          (case parse (group date_str m) of
             Some d \<Rightarrow> Some d
           | None \<Rightarrow> parse_absolute parse patterns date_str))"

text \<open>The second loop.\<close>

fun parse_relative :: "(atom list \<times> (unit option \<Rightarrow> pydate)) list \<Rightarrow> string \<Rightarrow> pydate option" where
  "parse_relative [] date_str = None"
| "parse_relative ((pattern, date_func) # rest) date_str =
     (if found pattern (lower date_str) then Some (date_func None)
      else parse_relative rest date_str)"

definition parse_date :: "(string \<Rightarrow> pydate option) \<Rightarrow> pydate \<Rightarrow> pyval \<Rightarrow> error + pydate option" where
  "parse_date parse now v =
     (if falsy v then Inr None
      else case v of
             PyStr date_str \<Rightarrow>
               (case parse_absolute parse date_patterns date_str of
                  Some d \<Rightarrow> Inr (Some d)
                | None \<Rightarrow> Inr (parse_relative (relative_patterns now) date_str))
           | _ \<Rightarrow> Inl (TypeError ''expected string or bytes-like object''))"

subsection \<open>_determine_job_type, _determine_experience_level, _determine_workplace_type\<close>

text \<open>\<open>any(word in text for word in words)\<close>.\<close>

definition any_in :: "string \<Rightarrow> string list \<Rightarrow> bool" where
  "any_in text words = list_ex (\<lambda>word. contains text word) words"

definition determine_job_type :: "string \<Rightarrow> string \<Rightarrow> error + JobType" where
  "determine_job_type title description =
     (let text = lower (title @ '' '' @ description)
      in if any_in text [''intern'', ''internship'', ''student''] then JobType_attr ''INTERNSHIP''
         else if any_in text [''contract'', ''contractor'', ''temporary'', ''temp'']
           then JobType_attr ''CONTRACT''
         else if any_in text [''part time'', ''part-time'', ''parttime'']
           then JobType_attr ''PART_TIME''
         else if any_in text [''freelance'', ''freelancer'', ''consultant'']
           then JobType_attr ''FREELANCE''
         else JobType_attr ''FULL_TIME'')"

text \<open>\<open>\bA-B\s*years?\b\<close> and \<open>\bA\+?\s*years?\b\<close>.\<close>

definition years_range :: "string \<Rightarrow> atom list" where
  "years_range r = [Bnd] @ lits r @ [star is_space] @ lits ''year'' @ [opt (\<lambda>c. c = CHR ''s''), Bnd]"

definition years_plus :: "char \<Rightarrow> atom list" where
  "years_plus n = [Bnd, lit n, opt (\<lambda>c. c = CHR ''+''), star is_space] @ lits ''year''
                  @ [opt (\<lambda>c. c = CHR ''s''), Bnd]"

definition determine_experience_level :: "string \<Rightarrow> string \<Rightarrow> error + ExperienceLevel" where
  "determine_experience_level title description =
     (let text = lower (title @ '' '' @ description);
          title_lower = lower title
      in if any_in title_lower [''senior'', ''sr.'', ''lead'', ''staff'']
           then ExperienceLevel_attr ''SENIOR''
         else if any_in title_lower [''junior'', ''jr.'', ''entry'', ''associate'']
           then (if contains title_lower ''entry'' then ExperienceLevel_attr ''ENTRY_LEVEL''
                 else ExperienceLevel_attr ''ASSOCIATE'')
         else if any_in title_lower [''principal'', ''architect'', ''distinguished'']
           then ExperienceLevel_attr ''PRINCIPAL''
         else if any_in title_lower [''director'', ''head of'', ''vp'', ''vice president'']
           then ExperienceLevel_attr ''DIRECTOR''
         else if any_in title_lower [''cto'', ''ceo'', ''cmo'', ''cfo'', ''chief'']
           then ExperienceLevel_attr ''C_LEVEL''
         else if found (years_range ''0-2'') text \<or> contains text ''entry level''
           then ExperienceLevel_attr ''ENTRY_LEVEL''
         else if found (years_range ''2-4'') text
           then ExperienceLevel_attr ''ASSOCIATE''
         else if found (years_range ''4-7'') text
           then ExperienceLevel_attr ''MID_LEVEL''
         else if found (years_plus CHR ''7'') text \<or> found (years_plus CHR ''8'') text
           then ExperienceLevel_attr ''SENIOR''
         else ExperienceLevel_attr ''UNKNOWN'')"

definition determine_workplace_type :: "string \<Rightarrow> string \<Rightarrow> error + WorkplaceType" where
  "determine_workplace_type location description =
     (let text = lower (location @ '' '' @ description)
      in if any_in text [''remote'', ''work from home'', ''telecommute'', ''distributed'']
           then (if any_in text [''hybrid'', ''flexible'', ''optional remote'']
                 then WorkplaceType_attr ''HYBRID''
                 else WorkplaceType_attr ''REMOTE'')
         else if any_in text [''hybrid'', ''flexible work'', ''remote optional'']
           then WorkplaceType_attr ''HYBRID''
         else if any_in text [''on-site'', ''onsite'', ''office'', ''in-person'']
           then WorkplaceType_attr ''ON_SITE''
         else WorkplaceType_attr ''UNKNOWN'')"


section \<open>BaseScraper: the per-item pipeline and the run\<close>

text \<open>
  What the scraper calls outside the repository: \<open>dateutil.parser.parse\<close> (with
  \<open>None\<close> for a string it rejects), the clock, and \<open>urllib.parse.urljoin\<close>.
\<close>

record externals =
  dateutil_parse :: "string \<Rightarrow> pydate option"
  today :: pydate
  urljoin :: "string \<Rightarrow> string \<Rightarrow> string"

text \<open>\<open>self.stats\<close>.\<close>

record stats =
  jobs_found :: nat
  jobs_processed :: nat
  jobs_categorized :: nat
  errors :: "string list"

text \<open>The fields of a scraper that the run reads and writes.\<close>

record BaseScraper =
  company_name :: CompanyName
  careers_url :: string
  rate_limit :: rat
  categorizer :: JobCategorizer
  stats :: stats

text \<open>A raw listing: a dictionary as its items; \<open>raw_get\<close> is \<open>raw_job.get(key, default)\<close>.\<close>

type_synonym raw_job = "(string \<times> pyval) list"

definition raw_get :: "raw_job \<Rightarrow> string \<Rightarrow> pyval \<Rightarrow> pyval" where
  "raw_get raw key dflt = (case map_of raw key of None \<Rightarrow> dflt | Some v \<Rightarrow> v)"

text \<open>Sequencing of steps that may raise.\<close>

definition and_then :: "error + 'a \<Rightarrow> ('a \<Rightarrow> error + 'b) \<Rightarrow> error + 'b" where
  "and_then m f = (case m of Inl e \<Rightarrow> Inl e | Inr x \<Rightarrow> f x)"

text \<open>\<open>if url and not url.startswith("http"): url = urljoin(self.careers_url, url)\<close>.\<close>

definition absolute_url :: "externals \<Rightarrow> string \<Rightarrow> pyval \<Rightarrow> error + pyval" where
  "absolute_url ext base u =
     (if falsy u then Inr u
      else case u of
             PyStr s \<Rightarrow> Inr (if \<not> startswith s ''http'' then PyStr (urljoin ext base s) else u)
           | _ \<Rightarrow> Inl (AttributeError ''startswith''))"

text \<open>
  The canonical record (\<open>Job\<close> of data/models.py).  The model ignores keyword arguments
  that are no field of it and checks the type of \<open>url\<close>, the one field the pipeline
  can pass a value of another type.
\<close>

record Job =
  job_id :: string
  title :: string
  company :: CompanyName
  location :: string
  description :: string
  department :: "string option"
  category :: JobCategory
  job_type :: JobType
  experience_level :: ExperienceLevel
  workplace_type :: WorkplaceType
  posted_date :: "pydate option"
  url :: "string option"
  metadata :: "(string \<times> pyval) list"

definition Job_url :: "pyval \<Rightarrow> error + string option" where
  "Job_url u =
     (case u of PyNone \<Rightarrow> Inr None | PyStr s \<Rightarrow> Inr (Some s)
      | PyInt n \<Rightarrow> Inl (ValidationError ''url''))"

text \<open>
  \<open>_process_job_data\<close>, from the parsing of the date to the construction of the
  \<open>Job\<close>.
\<close>

definition build_job ::
  "externals \<Rightarrow> BaseScraper \<Rightarrow> raw_job \<Rightarrow> string \<Rightarrow> string \<Rightarrow> string \<Rightarrow> string option \<Rightarrow> pyval \<Rightarrow>
   JobCategorizationResult \<Rightarrow> error + Job" where
  "build_job ext sc raw t d l dep u categorization =
     and_then (parse_date (dateutil_parse ext) (today ext) (raw_get raw ''posted_date'' PyNone))
       (\<lambda>posted.
     and_then (determine_job_type t d) (\<lambda>jt.
     and_then (determine_experience_level t d) (\<lambda>el.
     and_then (determine_workplace_type l d) (\<lambda>wt.
     and_then (clean_text (raw_get raw ''requirements'' PyNone)) (\<lambda>requirements.
     and_then (clean_text (raw_get raw ''responsibilities'' PyNone)) (\<lambda>responsibilities.
     and_then (clean_text (raw_get raw ''benefits'' PyNone)) (\<lambda>benefits.
     and_then (Job_url u) (\<lambda>u'.
       Inr \<lparr>job_id = [], title = t, company = company_name sc, location = l,
            description = d, department = dep,
            category = JobCategorizationResult.category categorization,
            job_type = jt, experience_level = el, workplace_type = wt,
            posted_date = posted, url = u', metadata = []\<rparr>))))))))"

text \<open>
  The body of the \<open>try\<close> of \<open>_process_job_data\<close>: the result or the exception, and
  the scraper with \<open>jobs_categorized\<close> counted once the categorizer has returned.
\<close>

definition process_job_body ::
  "externals \<Rightarrow> BaseScraper \<Rightarrow> raw_job \<Rightarrow> (error + Job option) \<times> BaseScraper" where
  "process_job_body ext sc raw =
     (case clean_text (raw_get raw ''title'' (PyStr [])) of Inl e \<Rightarrow> (Inl e, sc) | Inr t \<Rightarrow>
      case clean_text (raw_get raw ''description'' (PyStr [])) of Inl e \<Rightarrow> (Inl e, sc) | Inr d \<Rightarrow>
      case clean_text (raw_get raw ''location'' (PyStr [])) of Inl e \<Rightarrow> (Inl e, sc) | Inr l \<Rightarrow>
      case clean_text (raw_get raw ''department'' PyNone) of Inl e \<Rightarrow> (Inl e, sc) | Inr dep \<Rightarrow>
        (let u = raw_get raw ''url'' (PyStr [])
         in case (t, d, l) of
              (Some t', Some d', Some l') \<Rightarrow>
                if t' = [] \<or> d' = [] \<or> l' = [] then (Inr None, sc)
                else
                  (case absolute_url ext (careers_url sc) u of Inl e \<Rightarrow> (Inl e, sc) | Inr u' \<Rightarrow>
                   case categorize_job (categorizer sc) t' d' dep of
                     Inl e \<Rightarrow> (Inl e, sc)
                   | Inr categorization \<Rightarrow>
                       (let sc' = sc\<lparr>stats := (stats sc)
                                       \<lparr>jobs_categorized := jobs_categorized (stats sc) + 1\<rparr>\<rparr>
                        in case build_job ext sc' raw t' d' l' dep u' categorization of
                             Inl e \<Rightarrow> (Inl e, sc')
                           | Inr job \<Rightarrow> (Inr (Some job), sc')))
            | _ \<Rightarrow> (Inr None, sc)))"

text \<open>
  \<open>_process_job_data\<close>: the \<open>except Exception\<close> around the body logs the exception and
  returns \<open>None\<close>.
\<close>

definition process_job_data ::
  "externals \<Rightarrow> BaseScraper \<Rightarrow> raw_job \<Rightarrow> (error + Job option) \<times> BaseScraper" where
  "process_job_data ext sc raw =
     (case process_job_body ext sc raw of
        (Inl e, sc') \<Rightarrow> (Inr None, sc')
      | (Inr job, sc') \<Rightarrow> (Inr job, sc'))"

text \<open>
  The loop of \<open>scrape_jobs\<close> over the raw listings.  \<open>delays\<close> lists the arguments of
  the calls of \<open>asyncio.sleep\<close> made so far.
\<close>

fun scrape_loop ::
  "externals \<Rightarrow> Job list \<Rightarrow> BaseScraper \<Rightarrow> rat list \<Rightarrow> raw_job list \<Rightarrow>
   Job list \<times> BaseScraper \<times> rat list" where
  "scrape_loop ext jobs sc delays [] = (jobs, sc, delays)"
| "scrape_loop ext jobs sc delays (raw_job # raw_jobs) =
     (let (result, sc1) = process_job_data ext sc raw_job;
          (jobs', sc2) =
            (case result of
               Inr (Some job) \<Rightarrow>
                 (jobs @ [job],
                  sc1\<lparr>stats := (stats sc1)\<lparr>jobs_processed := jobs_processed (stats sc1) + 1\<rparr>\<rparr>)
             | Inr None \<Rightarrow> (jobs, sc1)
             | Inl e \<Rightarrow>
                 (jobs, sc1\<lparr>stats := (stats sc1)\<lparr>errors := errors (stats sc1) @ [str_of_error e]\<rparr>\<rparr>));
          delays' = (if rate_limit sc2 > 0 then delays @ [1 / rate_limit sc2] else delays)
      in scrape_loop ext jobs' sc2 delays' raw_jobs)"

text \<open>
  \<open>scrape_jobs\<close>.  \<open>extraction\<close> is what the navigation, the wait for the page and the
  hook \<open>_extract_job_listings\<close> give: the raw listings, or the exception one of them
  raised.
\<close>

definition scrape_jobs ::
  "externals \<Rightarrow> BaseScraper \<Rightarrow> error + raw_job list \<Rightarrow> Job list \<times> BaseScraper \<times> rat list" where
  "scrape_jobs ext sc extraction =
     (case extraction of
        Inl e \<Rightarrow>
          ([], sc\<lparr>stats := (stats sc)\<lparr>errors := errors (stats sc) @ [str_of_error e]\<rparr>\<rparr>, [])
      | Inr raw_jobs \<Rightarrow>
          (let (jobs, sc', delays) = scrape_loop ext [] sc [] raw_jobs
           in (jobs, sc'\<lparr>stats := (stats sc')\<lparr>jobs_found := length raw_jobs\<rparr>\<rparr>, delays)))"

text \<open>
  A parser for the examples: it reads \<open>YYYY-MM-DD\<close> with a month from 1 to 12 and a day
  from 1 to 28 and rejects every other string.  On the strings it is applied to below it
  gives what \<open>dateutil.parser.parse\<close> gives.
\<close>

definition digit_value :: "char \<Rightarrow> int" where
  "digit_value c = code_point c - 48"

definition number_of :: "string \<Rightarrow> int" where
  "number_of s = foldl (\<lambda>n c. 10 * n + digit_value c) 0 s"

definition iso_parse :: "string \<Rightarrow> pydate option" where
  "iso_parse s =
     (if length s = 10 \<and> list_all is_digit (take 4 s) \<and> s ! 4 = CHR ''-''
         \<and> list_all is_digit (take 2 (drop 5 s)) \<and> s ! 7 = CHR ''-''
         \<and> list_all is_digit (drop 8 s)
         \<and> 1 \<le> number_of (take 4 s)
         \<and> 1 \<le> number_of (take 2 (drop 5 s)) \<and> number_of (take 2 (drop 5 s)) \<le> 12
         \<and> 1 \<le> number_of (drop 8 s) \<and> number_of (drop 8 s) \<le> 28
      then Some \<lparr>year = number_of (take 4 s), month = number_of (take 2 (drop 5 s)),
                 day = number_of (drop 8 s)\<rparr>
      else None)"

definition example_externals :: externals where
  "example_externals =
     \<lparr>dateutil_parse = iso_parse, today = \<lparr>year = 2026, month = 11, day = 4\<rparr>,
      urljoin = (\<lambda>base u. base @ u)\<rparr>"

definition example_categorizer :: JobCategorizer where
  "example_categorizer =
     \<lparr>categories =
        [(''technology'', \<lparr>keyword_list = [''engineer'', ''software developer''],
                            department_list = [''engineering'']\<rparr>),
         (''sales'', \<lparr>keyword_list = [''sales'', ''account executive''],
                       department_list = [''sales'']\<rparr>)],
      rules = \<lparr>title_weight = None, department_weight = None, description_weight = None,
               exact_match_bonus = None, min_confidence_threshold = None\<rparr>\<rparr>"

definition example_scraper :: BaseScraper where
  "example_scraper =
     \<lparr>company_name = META, careers_url = ''https://careers.example.com/'', rate_limit = 0,
      categorizer = example_categorizer,
      stats = \<lparr>jobs_found = 0, jobs_processed = 0, jobs_categorized = 0, errors = []\<rparr>\<rparr>"

definition listing :: "string \<Rightarrow> string \<Rightarrow> string \<Rightarrow> raw_job" where
  "listing t d l = [(''title'', PyStr t), (''description'', PyStr d), (''location'', PyStr l)]"

text \<open>
  The record the per-item pipeline gives for a raw listing, if it gives one: the body of
  \<open>_process_job_data\<close> ends normally with a \<open>Job\<close>.
\<close>

definition job_of :: "externals \<Rightarrow> BaseScraper \<Rightarrow> raw_job \<Rightarrow> Job option" where
  "job_of ext sc raw =
     (case fst (process_job_body ext sc raw) of Inr (Some job) \<Rightarrow> Some job | _ \<Rightarrow> None)"

text \<open>
  The required-field check of \<open>_process_job_data\<close> on a raw listing: some of title,
  description and location is \<open>None\<close> or empty after cleaning.
\<close>

definition lacks_required_field :: "raw_job \<Rightarrow> bool" where
  "lacks_required_field raw =
     (case (clean_text (raw_get raw ''title'' (PyStr [])),
            clean_text (raw_get raw ''description'' (PyStr [])),
            clean_text (raw_get raw ''location'' (PyStr []))) of
        (Inr t, Inr d, Inr l) \<Rightarrow> missing t \<or> missing d \<or> missing l
      | _ \<Rightarrow> False)"


section \<open>Properties of the categorizer\<close>

subsection \<open>Substrings\<close>

lemma startswith_iff: "startswith s p \<longleftrightarrow> (\<exists>q. s = p @ q)"
  unfolding startswith_def
  by (metis append_eq_conv_conj append_take_drop_id)

text \<open>\<open>contains\<close> is the substring test: \<open>sub\<close> lies in \<open>text\<close> between a prefix and a suffix.\<close>

lemma contains_iff: "contains t s \<longleftrightarrow> (\<exists>p q. t = p @ s @ q)"
proof (induction t)
  case Nil
  then show ?case by auto
next
  case (Cons c cs)
  show ?case
  proof
    assume "contains (c # cs) s"
    then consider "startswith (c # cs) s" | "contains cs s" by auto
    then show "\<exists>p q. c # cs = p @ s @ q"
    proof cases
      case 1
      then obtain q where "c # cs = s @ q" by (auto simp: startswith_iff)
      then have "c # cs = [] @ s @ q" by simp
      then show ?thesis by blast
    next
      case 2
      then obtain p q where "cs = p @ s @ q" using Cons.IH by auto
      then have "c # cs = (c # p) @ s @ q" by simp
      then show ?thesis by blast
    qed
  next
    assume "\<exists>p q. c # cs = p @ s @ q"
    then obtain p q where pq: "c # cs = p @ s @ q" by blast
    show "contains (c # cs) s"
    proof (cases p)
      case Nil
      then have "startswith (c # cs) s" using pq by (simp add: startswith_iff)
      then show ?thesis by simp
    next
      case (Cons a p')
      then have "cs = p' @ s @ q" using pq by simp
      then show ?thesis using Cons.IH by auto
    qed
  qed
qed

subsection \<open>_find_keyword_matches\<close>

lemma find_keyword_matches_loop_filter:
  "find_keyword_matches_loop text acc kws = acc @ filter (keyword_matches_text text) kws"
  by (induction kws arbitrary: acc) auto

lemma keyword_matches_text_iff:
  "keyword_matches_text text k \<longleftrightarrow>
     contains text (lower k)
     \<or> (length (split k) > 1 \<and> list_all (\<lambda>w. contains text (lower w)) (split k))"
  by (simp add: keyword_matches_text_def)

text \<open>
  Claim C5, as the code has it.  \<open>_find_keyword_matches\<close> returns the keyword list
  filtered, in order, by this test on a keyword: the lower-cased keyword is a substring
  of the text, or the keyword has more than one word and each of its words, lower-cased,
  is a substring of the text.  So a keyword is reported if and only if it is in the list
  and passes the test, and an entry of the list is reported at most once.  The test
  lower-cases the keyword; the text is taken as the caller passes it.
\<close>

theorem find_keyword_matches_characterised:
  "find_keyword_matches text kws =
     filter (\<lambda>k. contains text (lower k)
                \<or> (length (split k) > 1 \<and> list_all (\<lambda>w. contains text (lower w)) (split k)))
       kws"
  unfolding find_keyword_matches_def find_keyword_matches_loop_filter
  by (simp add: keyword_matches_text_iff[abs_def])

text \<open>
  Claim C5 as stated asks for the keyword verbatim.  The keyword \<open>Python\<close> has one word
  and does not occur verbatim in the text \<open>python developer\<close>, and it is reported.
\<close>

theorem find_keyword_matches_not_verbatim:
  "find_keyword_matches ''python developer'' [''Python''] = [''Python'']
   \<and> \<not> contains ''python developer'' ''Python''
   \<and> length (split ''Python'') = 1"
  by code_simp

subsection \<open>categorize_job\<close>











section \<open>Properties of the normalization helpers\<close>

text \<open>
  Claim C10.  \<open>_clean_text\<close> never returns the empty string: for every input the result
  is an exception (only for an input that is no string), \<open>None\<close>, or a string that is
  not empty.  The input \<open>None\<close> gives \<open>None\<close>, and a string gives \<open>None\<close> when it is
  empty or nothing is left of it after the three substitutions, and what is left
  otherwise; the required-field check (\<open>not x\<close>) holds of \<open>None\<close>.
\<close>

theorem clean_text_never_empty:
  "clean_text v \<noteq> Inr (Some [])
   \<and> clean_text PyNone = Inr None
   \<and> clean_text (PyStr s) = Inr (if s = [] \<or> cleaned s = [] then None else Some (cleaned s))
   \<and> missing None"
  by (cases v) (auto simp: clean_text_def Let_def missing_def)

lemma clean_text_examples:
  "clean_text (PyStr ''  <br> '') = Inr None
   \<and> clean_text (PyStr '' <b>Data</b>   Engineer '') = Inr (Some ''Data Engineer'')"
  by code_simp





section \<open>Properties of the per-item pipeline and the run\<close>

text \<open>Evaluations shared by the examples below.\<close>

lemma clean_text_example_fields:
  "clean_text (PyStr ''Software Engineer'') = Inr (Some ''Software Engineer'')
   \<and> clean_text (PyStr ''Build services'') = Inr (Some ''Build services'')
   \<and> clean_text (PyStr ''New York'') = Inr (Some ''New York'')"
  by code_simp

lemma experience_level_example:
  "determine_experience_level ''Software Engineer'' ''Build services''
     = Inl (AttributeError ''UNKNOWN'')"
  by code_simp

lemma process_job_body_engineer:
  "fst (process_job_body example_externals example_scraper
          (listing ''Software Engineer'' ''Build services'' ''New York''))
     = Inl (AttributeError ''UNKNOWN'')"
  by code_simp

lemma process_job_body_analyst:
  "fst (process_job_body example_externals example_scraper
          (listing ''Data Analyst'' ''Analyse sales data'' ''London''))
     = Inl (AttributeError ''UNKNOWN'')"
  by code_simp


lemma lacks_required_field_examples:
  "lacks_required_field [(''title'', PyStr ''Designer''), (''description'', PyStr ''Design things'')]
   \<and> \<not> lacks_required_field (listing ''Software Engineer'' ''Build services'' ''New York'')
   \<and> \<not> lacks_required_field (listing ''Data Analyst'' ''Analyse sales data'' ''London'')"
  by code_simp

lemma process_job_data_fst:
  "fst (process_job_data ext sc raw) =
     (case fst (process_job_body ext sc raw) of Inl e \<Rightarrow> Inr None | Inr job \<Rightarrow> Inr job)"
  by (simp add: process_job_data_def split: prod.splits sum.splits)

text \<open>
  Claim C1 fails on the code.  The raw listing with title \<open>Software Engineer\<close>,
  description \<open>Build services\<close> and location \<open>New York\<close> is well formed: the three fields
  are not empty after cleaning.  \<open>_determine_experience_level\<close> ends in
  \<open>ExperienceLevel.UNKNOWN\<close>, a name that \<open>ExperienceLevel\<close> of data/models.py does
  not define; the \<open>AttributeError\<close> is caught in \<open>_process_job_data\<close>, which returns
  \<open>None\<close> instead of a record.
\<close>

theorem process_job_data_drops_well_formed_listing:
  "clean_text (PyStr ''Software Engineer'') = Inr (Some ''Software Engineer'')
   \<and> clean_text (PyStr ''Build services'') = Inr (Some ''Build services'')
   \<and> clean_text (PyStr ''New York'') = Inr (Some ''New York'')
   \<and> determine_experience_level ''Software Engineer'' ''Build services''
       = Inl (AttributeError ''UNKNOWN'')
   \<and> fst (process_job_body example_externals example_scraper
            (listing ''Software Engineer'' ''Build services'' ''New York''))
       = Inl (AttributeError ''UNKNOWN'')
   \<and> fst (process_job_data example_externals example_scraper
            (listing ''Software Engineer'' ''Build services'' ''New York''))
       = Inr None"
  using clean_text_example_fields experience_level_example process_job_body_engineer
  by (simp add: process_job_data_fst)

text \<open>The names the three helpers use, against the members data/models.py defines.\<close>

lemma enumeration_names:
  "map (\<lambda>n. map_of ExperienceLevel_members n)
       [''SENIOR'', ''ENTRY_LEVEL'', ''ASSOCIATE'', ''PRINCIPAL'', ''DIRECTOR'', ''C_LEVEL'',
        ''MID_LEVEL'', ''UNKNOWN'']
     = [Some SENIOR, None, None, None, Some DIRECTOR, None, None, None]
   \<and> map (\<lambda>n. map_of WorkplaceType_members n) [''HYBRID'', ''REMOTE'', ''ON_SITE'', ''UNKNOWN'']
     = [Some HYBRID, Some REMOTE, None, Some UNKNOWN]
   \<and> map (\<lambda>n. map_of JobType_members n)
       [''INTERNSHIP'', ''CONTRACT'', ''PART_TIME'', ''FREELANCE'', ''FULL_TIME'']
     = [Some INTERNSHIP, Some CONTRACT, Some PART_TIME, Some FREELANCE, Some FULL_TIME]"
  by code_simp

lemma build_job_stats:
  "build_job ext (sc\<lparr>stats := st\<rparr>) raw t d l dep u c = build_job ext sc raw t d l dep u c"
  by (simp add: build_job_def)

lemma process_job_body_result_stats:
  "fst (process_job_body ext (sc\<lparr>stats := st\<rparr>) raw) = fst (process_job_body ext sc raw)"
  by (simp add: process_job_body_def build_job_stats Let_def
           split: sum.split option.split prod.split)

lemma process_job_body_fields:
  "company_name (snd (process_job_body ext sc raw)) = company_name sc"
  "careers_url (snd (process_job_body ext sc raw)) = careers_url sc"
  "rate_limit (snd (process_job_body ext sc raw)) = rate_limit sc"
  "categorizer (snd (process_job_body ext sc raw)) = categorizer sc"
  "errors (stats (snd (process_job_body ext sc raw))) = errors (stats sc)"
  "jobs_processed (stats (snd (process_job_body ext sc raw))) = jobs_processed (stats sc)"
  "jobs_found (stats (snd (process_job_body ext sc raw))) = jobs_found (stats sc)"
  by (simp_all add: process_job_body_def Let_def split: sum.split option.split prod.split)

lemma process_job_body_scraper:
  "\<exists>st'. snd (process_job_body ext (sc\<lparr>stats := st\<rparr>) raw) = sc\<lparr>stats := st'\<rparr>
         \<and> errors st' = errors st \<and> jobs_processed st' = jobs_processed st
         \<and> jobs_found st' = jobs_found st"
proof -
  let ?r = "snd (process_job_body ext (sc\<lparr>stats := st\<rparr>) raw)"
  have "?r = sc\<lparr>stats := stats ?r\<rparr>"
    by (rule BaseScraper.equality) (simp_all add: process_job_body_fields)
  moreover have "errors (stats ?r) = errors st" "jobs_processed (stats ?r) = jobs_processed st"
    "jobs_found (stats ?r) = jobs_found st"
    by (simp_all add: process_job_body_fields)
  ultimately show ?thesis by blast
qed

text \<open>\<open>_process_job_data\<close> never raises: what its body raises it turns into \<open>None\<close>.\<close>

lemma process_job_data_eq:
  "\<exists>st'. process_job_data ext (sc\<lparr>stats := st\<rparr>) raw = (Inr (job_of ext sc raw), sc\<lparr>stats := st'\<rparr>)
         \<and> errors st' = errors st \<and> jobs_processed st' = jobs_processed st"
proof -
  obtain st' where st': "snd (process_job_body ext (sc\<lparr>stats := st\<rparr>) raw) = sc\<lparr>stats := st'\<rparr>"
     "errors st' = errors st" "jobs_processed st' = jobs_processed st"
    using process_job_body_scraper by blast
  have r: "fst (process_job_body ext (sc\<lparr>stats := st\<rparr>) raw) = fst (process_job_body ext sc raw)"
    by (rule process_job_body_result_stats)
  obtain a b where ab: "process_job_body ext (sc\<lparr>stats := st\<rparr>) raw = (a, b)"
    by (cases "process_job_body ext (sc\<lparr>stats := st\<rparr>) raw")
  have "process_job_data ext (sc\<lparr>stats := st\<rparr>) raw = (Inr (job_of ext sc raw), sc\<lparr>stats := st'\<rparr>)"
    using ab st'(1) r
    by (auto simp: process_job_data_def job_of_def split: sum.splits option.splits)
  then show ?thesis using st' by blast
qed

lemma scrape_loop_eq:
  "\<exists>st'. scrape_loop ext jobs (sc\<lparr>stats := st\<rparr>) delays raws =
           (jobs @ List.map_filter (job_of ext sc) raws, sc\<lparr>stats := st'\<rparr>,
            delays @ (if rate_limit sc > 0 then replicate (length raws) (1 / rate_limit sc) else []))
        \<and> errors st' = errors st
        \<and> jobs_processed st' = jobs_processed st + length (List.map_filter (job_of ext sc) raws)"
proof (induction raws arbitrary: jobs st delays)
  case Nil
  show ?case by (intro exI[of _ st]) (simp add: List.map_filter_simps)
next
  case (Cons raw raws)
  obtain st1 where p: "process_job_data ext (sc\<lparr>stats := st\<rparr>) raw = (Inr (job_of ext sc raw), sc\<lparr>stats := st1\<rparr>)"
    and e1: "errors st1 = errors st" and j1: "jobs_processed st1 = jobs_processed st"
    using process_job_data_eq by blast
  show ?case
  proof (cases "job_of ext sc raw")
    case None
    obtain st' where l: "scrape_loop ext jobs (sc\<lparr>stats := st1\<rparr>)
          (if rate_limit sc > 0 then delays @ [1 / rate_limit sc] else delays) raws =
           (jobs @ List.map_filter (job_of ext sc) raws, sc\<lparr>stats := st'\<rparr>,
            (if rate_limit sc > 0 then delays @ [1 / rate_limit sc] else delays)
              @ (if rate_limit sc > 0 then replicate (length raws) (1 / rate_limit sc) else []))"
      and e: "errors st' = errors st1"
      and j: "jobs_processed st' = jobs_processed st1 + length (List.map_filter (job_of ext sc) raws)"
      using Cons.IH by blast
    show ?thesis
      apply (rule exI[of _ st'])
      using p None l e j e1 j1
      by (auto simp: List.map_filter_simps replicate_app_Cons_same split: if_splits)
  next
    case (Some job)
    let ?st2 = "st1\<lparr>jobs_processed := jobs_processed st1 + 1\<rparr>"
    obtain st' where l: "scrape_loop ext (jobs @ [job]) (sc\<lparr>stats := ?st2\<rparr>)
          (if rate_limit sc > 0 then delays @ [1 / rate_limit sc] else delays) raws =
           ((jobs @ [job]) @ List.map_filter (job_of ext sc) raws, sc\<lparr>stats := st'\<rparr>,
            (if rate_limit sc > 0 then delays @ [1 / rate_limit sc] else delays)
              @ (if rate_limit sc > 0 then replicate (length raws) (1 / rate_limit sc) else []))"
      and e: "errors st' = errors ?st2"
      and j: "jobs_processed st' = jobs_processed ?st2 + length (List.map_filter (job_of ext sc) raws)"
      using Cons.IH by blast
    show ?thesis
      apply (rule exI[of _ st'])
      using p Some l e j e1 j1
      by (auto simp: List.map_filter_simps replicate_app_Cons_same split: if_splits)
  qed
qed

text \<open>
  What a run with a successful extraction returns: the records of the listings the
  pipeline gives a record for, in order; the statistics; and the delays awaited.
\<close>

lemma scrape_jobs_eq:
  "\<exists>st'. scrape_jobs ext sc (Inr raws) =
           (List.map_filter (job_of ext sc) raws, sc\<lparr>stats := st'\<rparr>,
            (if rate_limit sc > 0 then replicate (length raws) (1 / rate_limit sc) else []))
        \<and> errors st' = errors (stats sc)
        \<and> jobs_found st' = length raws
        \<and> jobs_processed st' = jobs_processed (stats sc) + length (List.map_filter (job_of ext sc) raws)"
proof -
  obtain st' where l: "scrape_loop ext [] (sc\<lparr>stats := stats sc\<rparr>) [] raws =
           ([] @ List.map_filter (job_of ext sc) raws, sc\<lparr>stats := st'\<rparr>,
            [] @ (if rate_limit sc > 0 then replicate (length raws) (1 / rate_limit sc) else []))"
      and e: "errors st' = errors (stats sc)"
      and j: "jobs_processed st' = jobs_processed (stats sc) + length (List.map_filter (job_of ext sc) raws)"
    using scrape_loop_eq by blast
  show ?thesis
    apply (rule exI[of _ "st'\<lparr>jobs_found := length raws\<rparr>"])
    using l e j by (simp add: scrape_jobs_def)
qed

text \<open>A listing that fails the required-field check gives no record.\<close>

lemma job_of_lacking: "lacks_required_field raw \<Longrightarrow> job_of ext sc raw = None"
  by (auto simp: lacks_required_field_def job_of_def process_job_body_def missing_def Let_def
           split: sum.splits option.splits prod.splits)

text \<open>
  Claim C2 fails on the code, by the defect of claim C1.  With \<open>rate_limit = 0\<close> and a
  batch of two well-formed listings and one without location, the run returns no record
  at all: \<open>jobs_found\<close> is 3 and no delay is awaited, as claimed, but \<open>jobs_processed\<close>
  is 0, since both well-formed listings end in a name \<open>ExperienceLevel\<close> does not
  define.
\<close>

theorem scrape_jobs_three_listings:
  "rate_limit example_scraper = 0
   \<and> lacks_required_field [(''title'', PyStr ''Designer''), (''description'', PyStr ''Design things'')]
   \<and> \<not> lacks_required_field (listing ''Software Engineer'' ''Build services'' ''New York'')
   \<and> \<not> lacks_required_field (listing ''Data Analyst'' ''Analyse sales data'' ''London'')
   \<and> (case scrape_jobs example_externals example_scraper
             (Inr [listing ''Software Engineer'' ''Build services'' ''New York'',
                   listing ''Data Analyst'' ''Analyse sales data'' ''London'',
                   [(''title'', PyStr ''Designer''), (''description'', PyStr ''Design things'')]]) of
         (jobs, sc, delays) \<Rightarrow>
           jobs = [] \<and> jobs_found (stats sc) = 3 \<and> jobs_processed (stats sc) = 0 \<and> delays = [])"
proof -
  let ?a = "listing ''Software Engineer'' ''Build services'' ''New York''"
  let ?b = "listing ''Data Analyst'' ''Analyse sales data'' ''London''"
  let ?c = "[(''title'', PyStr ''Designer''), (''description'', PyStr ''Design things'')]"
  have ja: "job_of example_externals example_scraper ?a = None"
    by (simp add: job_of_def process_job_body_engineer)
  have jb: "job_of example_externals example_scraper ?b = None"
    by (simp add: job_of_def process_job_body_analyst)
  have jc: "job_of example_externals example_scraper ?c = None"
    using lacks_required_field_examples by (simp add: job_of_lacking)
  have r: "rate_limit example_scraper = 0" "jobs_processed (stats example_scraper) = 0"
    by (simp_all add: example_scraper_def)
  obtain st' where "scrape_jobs example_externals example_scraper (Inr [?a, ?b, ?c]) =
           (List.map_filter (job_of example_externals example_scraper) [?a, ?b, ?c],
            example_scraper\<lparr>stats := st'\<rparr>,
            (if rate_limit example_scraper > 0
             then replicate (length [?a, ?b, ?c]) (1 / rate_limit example_scraper) else []))"
      "jobs_found st' = length [?a, ?b, ?c]"
      "jobs_processed st' = jobs_processed (stats example_scraper)
         + length (List.map_filter (job_of example_externals example_scraper) [?a, ?b, ?c])"
    using scrape_jobs_eq[of example_externals example_scraper "[?a, ?b, ?c]"] by blast
  then show ?thesis
    using ja jb jc r lacks_required_field_examples
    by (simp add: List.map_filter_simps)
qed



end
